theory Spec2Isabelle
  imports Main "HOL-Library.Sublist"
begin

section \<open>Go values used by package containers\<close>

text \<open>
  A Go \<open>error\<close> is compared by identity and read through its \<open>Error()\<close> method.
  Three kinds of error value occur in \<open>containers.go\<close>: the sentinel \<open>io.EOF\<close>, the
  values the package makes itself with \<open>errors.New\<close>, and the values handed back by the
  engine client or by a library (\<open>encoding/json\<close>, \<open>stdcopy\<close>), which the package did not
  make. A nil error is \<open>None\<close>.
\<close>

datatype error = io_EOF | errors_New string | foreign_error string

fun Error :: "error \<Rightarrow> string" where
  "Error io_EOF = ''EOF''"
| "Error (errors_New s) = s"
| "Error (foreign_error s) = s"

text \<open>A call either returns or panics (nil pointer dereference).\<close>

datatype 'a outcome = Returns 'a | Panics string

subsection \<open>Option records passed to the engine\<close>

record ImageBuildOptions =
  Dockerfile :: string
  PullParent :: bool
  Tags :: "string list"
  Remove :: bool
  NoCache :: bool
  SuppressOutput :: bool

record StopOptions =
  Signal :: string

record RemoveOptions =
  RemoveVolumes :: bool
  RemoveLinks :: bool
  Force :: bool

record ImageRemoveOptions =
  Force :: bool
  PruneChildren :: bool

record ExecOptions =
  Cmd :: "string list"
  AttachStdout :: bool
  AttachStderr :: bool

text \<open>
  The four engine configurations wrapped by \<open>ContainerCreateConfig\<close> are passed through
  without being read; each is a pointer, so it may be nil.
\<close>

datatype container_Config = container_Config string
datatype container_HostConfig = container_HostConfig string
datatype network_NetworkingConfig = network_NetworkingConfig string
datatype v1_Platform = v1_Platform string

record ContainerCreateConfig =
  Name :: string
  Config :: "container_Config option"
  HostConfig :: "container_HostConfig option"
  NetworkingConfig :: "network_NetworkingConfig option"
  Platform :: "v1_Platform option"

subsection \<open>Build log records\<close>

record ProgressDetail =
  Current :: int
  Total :: int

record ImageBuildOut =
  Stream :: string
  Status :: string
  Id_field :: string
  Progress :: string
  ProgressDetail :: ProgressDetail

text \<open>The zero value of \<open>var buildOut ImageBuildOut\<close>.\<close>

definition ImageBuildOut_zero :: ImageBuildOut where
  "ImageBuildOut_zero =
     \<lparr>Stream = [], Status = [], Id_field = [], Progress = [],
      ProgressDetail = \<lparr>Current = 0, Total = 0\<rparr>\<rparr>"

text \<open>A JSON document as \<open>encoding/json\<close> parses it.\<close>

datatype json =
    JNull
  | JBool bool
  | JNumber int
  | JString string
  | JArray "json list"
  | JObject "(string \<times> json) list"

text \<open>
  The response body of a build is read by \<open>json.NewDecoder(image.Body).Decode\<close>, with a
  new decoder in every iteration of the loop. A body is the sequence of inputs that the
  successive decoders find: a well-formed JSON value, or text that is not JSON. Once the
  sequence is used up every read of the body returns the error \<open>body_end\<close>: \<open>io.EOF\<close>
  for a stream that ends, any other error for a transport that broke.
\<close>

datatype log_item = Value json | Garbage string

record Body =
  records :: "log_item list"
  body_end :: error

record ImageBuildResponse =
  Body :: Body
  OSType :: string

subsection \<open>Engine responses\<close>

record CreateResponse =
  ID :: string
  Warnings :: "string list"

record ImageInspect =
  ID :: string
  RepoTags :: "string list"

record DeleteResponse =
  Deleted :: string
  Untagged :: string

record PruneReport =
  ImagesDeleted :: "DeleteResponse list"
  SpaceReclaimed :: nat

record Health =
  Status :: string
  FailingStreak :: int

record ContainerState =
  Running :: bool
  Health :: "Health option"

record ContainerJSONBase =
  ID :: string
  State :: "ContainerState option"

record ContainerJSON =
  ContainerJSONBase :: "ContainerJSONBase option"

record IDResponse =
  ID :: string

text \<open>
  The attached exec stream: the byte chunks that successive reads deliver, then the error
  \<open>reader_end\<close> on every later read.
\<close>

record Reader =
  chunks :: "string list"
  reader_end :: error

record HijackedResponse =
  Reader :: Reader

record ExecInspect =
  ExecID :: string
  ExitCode :: int

subsection \<open>The engine client\<close>

text \<open>
  Everything the package does to the outside is an event: a call of a client method with
  its arguments, or the release of a resource. The engine is deterministic in the events so
  far, so each client method takes the history of events as its state.
\<close>

datatype event =
    Call_ImageBuild string ImageBuildOptions
  | Call_ContainerCreate ContainerCreateConfig
  | Call_ContainerStart string
  | Call_ContainerStop string StopOptions
  | Call_ContainerRemove string RemoveOptions
  | Call_ImageInspectWithRaw string
  | Call_ImageRemove string ImageRemoveOptions
  | Call_ImagesPrune "(string \<times> string) list"
  | Call_ContainerInspect string
  | Call_ContainerExecCreate string ExecOptions
  | Call_ContainerExecAttach string
  | Call_ContainerExecInspect string
  | Close_Body
  | Close_HijackedResponse

type_synonym history = "event list"

record Client =
  ImageBuild :: "history \<Rightarrow> string \<Rightarrow> ImageBuildOptions \<Rightarrow> ImageBuildResponse \<times> error option"
  ContainerCreate :: "history \<Rightarrow> ContainerCreateConfig \<Rightarrow> CreateResponse \<times> error option"
  ContainerStart :: "history \<Rightarrow> string \<Rightarrow> error option"
  ContainerStop :: "history \<Rightarrow> string \<Rightarrow> StopOptions \<Rightarrow> error option"
  ContainerRemove :: "history \<Rightarrow> string \<Rightarrow> RemoveOptions \<Rightarrow> error option"
  ImageInspectWithRaw :: "history \<Rightarrow> string \<Rightarrow> ImageInspect \<times> error option"
  ImageRemove :: "history \<Rightarrow> string \<Rightarrow> ImageRemoveOptions \<Rightarrow> DeleteResponse list \<times> error option"
  ImagesPrune :: "history \<Rightarrow> (string \<times> string) list \<Rightarrow> PruneReport \<times> error option"
  ContainerInspect :: "history \<Rightarrow> string \<Rightarrow> ContainerJSON \<times> error option"
  ContainerExecCreate :: "history \<Rightarrow> string \<Rightarrow> ExecOptions \<Rightarrow> IDResponse \<times> error option"
  ContainerExecAttach :: "history \<Rightarrow> string \<Rightarrow> HijackedResponse \<times> error option"
  ContainerExecInspect :: "history \<Rightarrow> string \<Rightarrow> ExecInspect \<times> error option"

section \<open>Container lifecycle\<close>

text \<open>
  Each operation takes the client (the global \<open>DockerClient\<close>), its arguments and the
  history, and returns its Go result with the history extended by what it did.
\<close>

definition CreateContainer ::
  "Client \<Rightarrow> ContainerCreateConfig option \<Rightarrow> history \<Rightarrow> (CreateResponse \<times> error option) outcome \<times> history" where
  "CreateContainer DockerClient config h =
     (case config of
        None \<Rightarrow> (Panics ''nil pointer dereference'', h)
      | Some cfg \<Rightarrow>
          (let (containerRes, err) = ContainerCreate DockerClient h cfg;
               h' = h @ [Call_ContainerCreate cfg]
           in case err of
                Some e \<Rightarrow>
                  (Returns (containerRes,
                     Some (errors_New (''[ERR:] [DOCKER] => FAILED TO CREATE CONTAINER '' @ Name cfg
                                        @ '' => '' @ Error e))), h')
              | None \<Rightarrow> (Returns (containerRes, None), h')))"

definition StartContainer :: "Client \<Rightarrow> CreateResponse \<Rightarrow> history \<Rightarrow> error option \<times> history" where
  "StartContainer DockerClient cont h =
     (let err = ContainerStart DockerClient h (CreateResponse.ID cont);
          h' = h @ [Call_ContainerStart (CreateResponse.ID cont)]
      in case err of
           Some e \<Rightarrow>
             (Some (errors_New (''[ERR:] [DOCKER] => FAILED TO START CONTAINER WITH ID: ''
                                 @ CreateResponse.ID cont @ '' => '' @ Error e)), h')
         | None \<Rightarrow> (None, h'))"

definition StopContainer :: "Client \<Rightarrow> string \<Rightarrow> history \<Rightarrow> error option \<times> history" where
  "StopContainer DockerClient containerID h =
     (let opts = \<lparr>Signal = ''SIGTERM''\<rparr>;
          err = ContainerStop DockerClient h containerID opts;
          h' = h @ [Call_ContainerStop containerID opts]
      in case err of
           Some e \<Rightarrow>
             (Some (errors_New (''[ERR:] [DOCKER] => FAILED TO STOP CONTAINER WITH ID: ''
                                 @ containerID @ '' => '' @ Error e)), h')
         | None \<Rightarrow> (None, h'))"

definition PurgeContainer :: "Client \<Rightarrow> string \<Rightarrow> history \<Rightarrow> error option \<times> history" where
  "PurgeContainer DockerClient containerID h =
     (let removeOptions = \<lparr>RemoveVolumes = True, RemoveLinks = False, RemoveOptions.Force = True\<rparr>;
          err = ContainerRemove DockerClient h containerID removeOptions;
          h' = h @ [Call_ContainerRemove containerID removeOptions]
      in case err of
           Some e \<Rightarrow>
             (Some (errors_New (''[ERR:] [DOCKER] => FAILED TO PURGE CONTAINER WITH ID: ''
                                 @ containerID @ '' => '' @ Error e)), h')
         | None \<Rightarrow> (None, h'))"

section \<open>Image garbage collection\<close>

definition DeleteImage :: "Client \<Rightarrow> string \<Rightarrow> history \<Rightarrow> (bool \<times> error option) \<times> history" where
  "DeleteImage DockerClient imageName h =
     (let (img, imgErr) = ImageInspectWithRaw DockerClient h imageName;
          h1 = h @ [Call_ImageInspectWithRaw imageName];
          exists = (imgErr = None)
      in if exists then
           (let opts = \<lparr>ImageRemoveOptions.Force = True, PruneChildren = True\<rparr>;
                (_, imgRemoveErr) = ImageRemove DockerClient h1 (ImageInspect.ID img) opts;
                h2 = h1 @ [Call_ImageRemove (ImageInspect.ID img) opts]
            in case imgRemoveErr of
                 Some e \<Rightarrow>
                   ((exists, Some (errors_New (''[ERR:] [DOCKER] => FAILED TO DELETE IMAGE: ''
                                                @ imageName @ '' | => '' @ Error e))), h2)
               | None \<Rightarrow> ((exists, None), h2))
         else ((exists, None), h1))"

definition PruneDanglingImages :: "Client \<Rightarrow> history \<Rightarrow> (PruneReport \<times> error option) \<times> history" where
  "PruneDanglingImages DockerClient h =
     (let pruneFilters = [(''dangling'', ''true'')];
          (pruneReport, pruneErr) = ImagesPrune DockerClient h pruneFilters;
          h' = h @ [Call_ImagesPrune pruneFilters]
      in case pruneErr of
           Some e \<Rightarrow>
             ((pruneReport,
               Some (errors_New (''[ERR:] [DOCKER] => FAILED TO PRUNE DANGLING IMAGES  | => '' @ Error e))), h')
         | None \<Rightarrow> ((pruneReport, None), h'))"

section \<open>Health probe\<close>

text \<open>
  \<open>containerJSON.State.Health.Status\<close> goes through three pointers: the embedded
  \<open>*ContainerJSONBase\<close>, \<open>State\<close> and \<open>Health\<close>. Reading through a nil pointer panics.
\<close>

definition GetContainerHealthStatus ::
  "Client \<Rightarrow> string \<Rightarrow> history \<Rightarrow> (string \<times> error option) outcome \<times> history" where
  "GetContainerHealthStatus DockerClient containerID h =
     (let (containerJSON, err) = ContainerInspect DockerClient h containerID;
          h' = h @ [Call_ContainerInspect containerID]
      in case err of
           Some e \<Rightarrow> (Returns (''unhealthy'', Some e), h')
         | None \<Rightarrow>
             (case ContainerJSONBase containerJSON of
                None \<Rightarrow> (Panics ''nil pointer dereference'', h')
              | Some base \<Rightarrow>
                  (case State base of
                     None \<Rightarrow> (Panics ''nil pointer dereference'', h')
                   | Some st \<Rightarrow>
                       (case Health st of
                          None \<Rightarrow> (Panics ''nil pointer dereference'', h')
                        | Some hl \<Rightarrow> (Returns (Health.Status hl, None), h')))))"

section \<open>Image build\<close>

subsection \<open>Decoding one build log record\<close>

text \<open>
  \<open>Decode\<close> fills the struct from a JSON object: a key that names a field (by its
  \<open>json\<close> tag) sets it, \<open>null\<close> leaves it, a value of the wrong type leaves it and is
  reported once the whole object has been read (first such error), and a key that names no
  field of the struct is skipped. \<open>ImageBuildOut\<close> declares the keys \<open>stream\<close>,
  \<open>status\<close>, \<open>id\<close>, \<open>progress\<close> and \<open>progressDetail\<close> and no other. (Keys are
  compared exactly here; \<open>encoding/json\<close> also takes a key that differs in letter case.)
\<close>

definition type_error :: error where
  "type_error = foreign_error ''json: cannot unmarshal value into Go struct field''"

definition syntax_error :: error where
  "syntax_error = foreign_error ''invalid character looking for beginning of value''"

definition first_error :: "error option \<Rightarrow> error option \<Rightarrow> error option" where
  "first_error saved new = (case saved of None \<Rightarrow> new | Some e \<Rightarrow> Some e)"

fun unmarshal_string :: "json \<Rightarrow> string \<Rightarrow> string \<times> error option" where
  "unmarshal_string (JString s) old = (s, None)"
| "unmarshal_string JNull old = (old, None)"
| "unmarshal_string _ old = (old, Some type_error)"

fun unmarshal_int :: "json \<Rightarrow> int \<Rightarrow> int \<times> error option" where
  "unmarshal_int (JNumber n) old = (n, None)"
| "unmarshal_int JNull old = (old, None)"
| "unmarshal_int _ old = (old, Some type_error)"

definition unmarshal_ProgressDetail_field ::
  "ProgressDetail \<times> error option \<Rightarrow> string \<times> json \<Rightarrow> ProgressDetail \<times> error option" where
  "unmarshal_ProgressDetail_field acc kv =
     (let (v, saved) = acc; (k, j) = kv
      in if k = ''current'' then
           (let (n, e) = unmarshal_int j (Current v) in (v\<lparr>Current := n\<rparr>, first_error saved e))
         else if k = ''total'' then
           (let (n, e) = unmarshal_int j (Total v) in (v\<lparr>Total := n\<rparr>, first_error saved e))
         else (v, saved))"

fun unmarshal_ProgressDetail :: "json \<Rightarrow> ProgressDetail \<Rightarrow> ProgressDetail \<times> error option" where
  "unmarshal_ProgressDetail (JObject kvs) old = foldl unmarshal_ProgressDetail_field (old, None) kvs"
| "unmarshal_ProgressDetail JNull old = (old, None)"
| "unmarshal_ProgressDetail _ old = (old, Some type_error)"

definition unmarshal_ImageBuildOut_field ::
  "ImageBuildOut \<times> error option \<Rightarrow> string \<times> json \<Rightarrow> ImageBuildOut \<times> error option" where
  "unmarshal_ImageBuildOut_field acc kv =
     (let (v, saved) = acc; (k, j) = kv
      in if k = ''stream'' then
           (let (s, e) = unmarshal_string j (Stream v) in (v\<lparr>Stream := s\<rparr>, first_error saved e))
         else if k = ''status'' then
           (let (s, e) = unmarshal_string j (ImageBuildOut.Status v)
            in (v\<lparr>ImageBuildOut.Status := s\<rparr>, first_error saved e))
         else if k = ''id'' then
           (let (s, e) = unmarshal_string j (Id_field v) in (v\<lparr>Id_field := s\<rparr>, first_error saved e))
         else if k = ''progress'' then
           (let (s, e) = unmarshal_string j (Progress v) in (v\<lparr>Progress := s\<rparr>, first_error saved e))
         else if k = ''progressDetail'' then
           (let (d, e) = unmarshal_ProgressDetail j (ProgressDetail v)
            in (v\<lparr>ProgressDetail := d\<rparr>, first_error saved e))
         else (v, saved))"

fun unmarshal_ImageBuildOut :: "json \<Rightarrow> ImageBuildOut \<Rightarrow> ImageBuildOut \<times> error option" where
  "unmarshal_ImageBuildOut (JObject kvs) old = foldl unmarshal_ImageBuildOut_field (old, None) kvs"
| "unmarshal_ImageBuildOut JNull old = (old, None)"
| "unmarshal_ImageBuildOut _ old = (old, Some type_error)"

text \<open>
  A \<open>json.Decoder\<close> keeps the first error of its input (a syntax error, a read error,
  end of input) and returns it from every later \<open>Decode\<close>; an error of filling the struct
  is returned and not kept. Text that does not parse is consumed with the decoder that
  read it.
\<close>

record Decoder =
  dec_err :: "error option"

definition NewDecoder :: Decoder where
  "NewDecoder = \<lparr>dec_err = None\<rparr>"

definition Decode ::
  "Decoder \<Rightarrow> Body \<Rightarrow> ImageBuildOut \<Rightarrow> (ImageBuildOut \<times> error option) \<times> Decoder \<times> Body" where
  "Decode dec body v =
     (case dec_err dec of
        Some e \<Rightarrow> ((v, Some e), dec, body)
      | None \<Rightarrow>
          (case records body of
             [] \<Rightarrow> ((v, Some (body_end body)), dec\<lparr>dec_err := Some (body_end body)\<rparr>, body)
           | Garbage t # rest \<Rightarrow>
               ((v, Some syntax_error), dec\<lparr>dec_err := Some syntax_error\<rparr>, body\<lparr>records := rest\<rparr>)
           | Value j # rest \<Rightarrow> (unmarshal_ImageBuildOut j v, dec, body\<lparr>records := rest\<rparr>)))"

subsection \<open>BuildImage\<close>

text \<open>
  The \<open>for\<close> loop of \<open>BuildImage\<close> has one exit, the \<open>break\<close> after \<open>Close\<close>
  when \<open>Decode\<close> returned \<open>io.EOF\<close>. A run that never reaches it has no result:
  \<open>None\<close>.
\<close>

partial_function (option) BuildImage_loop :: "Body \<Rightarrow> history \<Rightarrow> history option" where
  "BuildImage_loop body h =
     (let ((buildOut, outErr), dec, body') = Decode NewDecoder body ImageBuildOut_zero
      in if outErr = Some io_EOF then Some (h @ [Close_Body])
         else BuildImage_loop body' h)"

text \<open>
  The same loop watched for a bounded number of iterations: whether it has reached its exit,
  the body as read so far and the history so far. It tells what a run that never returns has
  done to the body.
\<close>

fun BuildImage_loop_steps :: "nat \<Rightarrow> Body \<Rightarrow> history \<Rightarrow> bool \<times> Body \<times> history" where
  "BuildImage_loop_steps 0 body h = (False, body, h)"
| "BuildImage_loop_steps (Suc n) body h =
     (let ((buildOut, outErr), dec, body') = Decode NewDecoder body ImageBuildOut_zero
      in if outErr = Some io_EOF then (True, body', h @ [Close_Body])
         else BuildImage_loop_steps n body' h)"

definition buildOptions :: "string \<Rightarrow> ImageBuildOptions" where
  "buildOptions imageName =
     \<lparr>Dockerfile = ''Dockerfile'', PullParent = True, Tags = [imageName], Remove = True,
      NoCache = True, SuppressOutput = False\<rparr>"

text \<open>\<open>Tar\<close> is \<open>archive.Tar(path, archive.Uncompressed)\<close>.\<close>

definition BuildImage ::
  "(string \<Rightarrow> string \<times> error option) \<Rightarrow> Client \<Rightarrow> string \<Rightarrow> string \<Rightarrow> history
     \<Rightarrow> (error option \<times> history) option" where
  "BuildImage Tar DockerClient path imageName h =
     (let (buildCtx, buildCtxErr) = Tar path
      in case buildCtxErr of
           Some e \<Rightarrow>
             Some (Some (errors_New (''[ERR:] [DOCKER] => FAILED TO CREATE BUILD CONTEXT FOR IMAGE ''
                                      @ imageName @ '' => '' @ Error e)), h)
         | None \<Rightarrow>
             (let (image, imgErr) = ImageBuild DockerClient h buildCtx (buildOptions imageName);
                  h1 = h @ [Call_ImageBuild buildCtx (buildOptions imageName)]
              in case imgErr of
                   Some e \<Rightarrow>
                     Some (Some (errors_New (''[ERR:] [DOCKER] => FAILED TO BUILD IMAGE ''
                                              @ imageName @ '' => '' @ Error e)), h1)
                 | None \<Rightarrow> map_option (\<lambda>h2. (None, h2)) (BuildImage_loop (Body image) h1)))"

text \<open>
  An error record of the build log is a JSON object with an \<open>error\<close> key, as the engine
  sends when a build step fails.
\<close>

fun is_error_record :: "log_item \<Rightarrow> bool" where
  "is_error_record (Value (JObject kvs)) = (''error'' \<in> set (map fst kvs))"
| "is_error_record _ = False"

definition closes :: "history \<Rightarrow> nat" where
  "closes h = count_list h Close_Body"

section \<open>Exec\<close>

subsection \<open>Demultiplexing the attached stream\<close>

text \<open>
  Modelled from the spec: \<open>stdcopy.StdCopy\<close>, which \<open>Exec\<close> calls and whose code is
  not among the sources. The spec gives the wire format, frames of a 1-byte stream-origin
  marker, a 4-byte big-endian length and that many payload bytes, and the procedure: loop
  until the stream is exhausted, reassemble frames that arrive split across reads, write
  each payload to the buffer of its origin (await header, await payload, emit, repeat).
\<close>

datatype origin = Stdout | Stderr

fun origin_tag :: "origin \<Rightarrow> char" where
  "origin_tag Stdout = CHR 0x01"
| "origin_tag Stderr = CHR 0x02"

definition header_len :: nat where
  "header_len = 5"

definition BigEndian_Uint32 :: "string \<Rightarrow> nat" where
  "BigEndian_Uint32 bs = foldl (\<lambda>n c. n * 256 + of_char c) 0 (take 4 bs)"

definition BigEndian_PutUint32 :: "nat \<Rightarrow> string" where
  "BigEndian_PutUint32 n =
     [char_of (n div 16777216), char_of (n div 65536), char_of (n div 256), char_of n]"

definition encode_frame :: "origin \<times> string \<Rightarrow> string" where
  "encode_frame f = origin_tag (fst f) # BigEndian_PutUint32 (length (snd f)) @ snd f"

definition unrecognized_header :: error where
  "unrecognized_header = foreign_error ''Unrecognized input header''"

text \<open>
  Modelled from the spec: the frame decoder inside \<open>stdcopy.StdCopy\<close> (await header, await
  payload, emit, repeat). \<open>emit_frames\<close> takes every complete frame off the front of the
  buffer and appends its payload to the buffer of its origin; what is left is the start of a
  frame still to come. A marker that is neither stdout nor stderr ends the copy with an error.
\<close>

function emit_frames :: "string \<Rightarrow> string \<Rightarrow> string \<Rightarrow> error + (string \<times> string \<times> string)" where
  "emit_frames buf outBuf errBuf =
     (if length buf < header_len then Inr (buf, outBuf, errBuf)
      else if hd buf \<noteq> origin_tag Stdout \<and> hd buf \<noteq> origin_tag Stderr then Inl unrecognized_header
      else
        (let frameSize = BigEndian_Uint32 (drop 1 buf)
         in if length buf < header_len + frameSize then Inr (buf, outBuf, errBuf)
            else if hd buf = origin_tag Stdout then
              emit_frames (drop (header_len + frameSize) buf)
                (outBuf @ take frameSize (drop header_len buf)) errBuf
            else
              emit_frames (drop (header_len + frameSize) buf)
                outBuf (errBuf @ take frameSize (drop header_len buf))))"
  by pat_completeness auto
termination
  by (relation "measure (\<lambda>(buf, outBuf, errBuf). length buf)") (auto simp: header_len_def)

declare emit_frames.simps [simp del]

text \<open>
  Modelled from the spec: the read loop of \<open>stdcopy.StdCopy\<close>, looping until the stream is
  exhausted. One read per step. At end of stream a frame that is not complete is dropped and
  the copy ends without error; any other read error ends it with that error.
\<close>

fun StdCopy_loop ::
  "string list \<Rightarrow> error \<Rightarrow> string \<Rightarrow> string \<Rightarrow> string \<Rightarrow> (string \<times> string) \<times> error option" where
  "StdCopy_loop [] e buf outBuf errBuf =
     (if e = io_EOF then ((outBuf, errBuf), None) else ((outBuf, errBuf), Some e))"
| "StdCopy_loop (c # cs) e buf outBuf errBuf =
     (case emit_frames (buf @ c) outBuf errBuf of
        Inl err \<Rightarrow> ((outBuf, errBuf), Some err)
      | Inr (buf', outBuf', errBuf') \<Rightarrow> StdCopy_loop cs e buf' outBuf' errBuf')"

text \<open>
  Modelled from the spec: \<open>stdcopy.StdCopy(&outBuf, &errBuf, resp.Reader)\<close>, started on
  empty buffers; it returns the two buffers and the error.
\<close>

definition StdCopy :: "Reader \<Rightarrow> (string \<times> string) \<times> error option" where
  "StdCopy src = StdCopy_loop (chunks src) (reader_end src) [] [] []"

subsection \<open>Exec\<close>

text \<open>\<open>fmt.Sprint\<close> of an \<open>int\<close>: its decimal digits, with a minus sign when negative.\<close>

fun digits :: "nat \<Rightarrow> string" where
  "digits n = (if n < 10 then [char_of (48 + n)] else digits (n div 10) @ [char_of (48 + n mod 10)])"

declare digits.simps [simp del]

definition Sprint :: "int \<Rightarrow> string" where
  "Sprint i = (if i < 0 then CHR ''-'' # digits (nat (- i)) else digits (nat i))"

text \<open>
  \<open>defer resp.Close()\<close> runs at every return after the attach succeeded: the close event
  ends the history of each of those paths.
\<close>

definition Exec :: "Client \<Rightarrow> string \<Rightarrow> string list \<Rightarrow> history \<Rightarrow> (string \<times> error option) \<times> history" where
  "Exec DockerClient containerID cmd h =
     (let execConfig = \<lparr>Cmd = cmd, AttachStdout = True, AttachStderr = True\<rparr>;
          (execIDResp, err) = ContainerExecCreate DockerClient h containerID execConfig;
          h1 = h @ [Call_ContainerExecCreate containerID execConfig]
      in case err of
           Some e \<Rightarrow>
             (([], Some (errors_New (''[ERR:] [DOCKER] => FAILED TO CREATE EXEC ISNTANCE => '' @ Error e))), h1)
         | None \<Rightarrow>
             (let (resp, err) = ContainerExecAttach DockerClient h1 (IDResponse.ID execIDResp);
                  h2 = h1 @ [Call_ContainerExecAttach (IDResponse.ID execIDResp)]
              in case err of
                   Some e \<Rightarrow>
                     (([], Some (errors_New (''[ERR:] [DOCKER] => FAILED TO ATTACH TO EXEC INSTANCE => ''
                                              @ Error e))), h2)
                 | None \<Rightarrow>
                     (let ((outBuf, errBuf), err) = StdCopy (Reader resp)
                      in case err of
                           Some e \<Rightarrow>
                             (([], Some (errors_New (''[ERR:] [DOCKER] => FAILED TO COPY EXEC OUTPUT => ''
                                                      @ Error e))), h2 @ [Close_HijackedResponse])
                         | None \<Rightarrow>
                             (let (execInspectResp, err) =
                                    ContainerExecInspect DockerClient h2 (IDResponse.ID execIDResp);
                                  h3 = h2 @ [Call_ContainerExecInspect (IDResponse.ID execIDResp)]
                              in case err of
                                   Some e \<Rightarrow>
                                     (([], Some (errors_New
                                         (''[ERR:] [DOCKER] => FAILED TO INSPECT EXEC INSTANCE => '' @ Error e))),
                                      h3 @ [Close_HijackedResponse])
                                 | None \<Rightarrow>
                                     if ExitCode execInspectResp \<noteq> 0 then
                                       (([], Some (errors_New
                                           (''[ERR:] [DOCKER] => COMMAND EXITIED WITH CODE ''
                                            @ Sprint (ExitCode execInspectResp) @ '' => '' @ errBuf))),
                                        h3 @ [Close_HijackedResponse])
                                     else ((outBuf, None), h3 @ [Close_HijackedResponse])))))"

section \<open>Notions the claims are stated in\<close>

subsection \<open>Frames on the wire\<close>

definition payloads_of :: "origin \<Rightarrow> (origin \<times> string) list \<Rightarrow> string" where
  "payloads_of og fs = concat (map snd (filter (\<lambda>f. fst f = og) fs))"

definition wire :: "(origin \<times> string) list \<Rightarrow> string" where
  "wire fs = concat (map encode_frame fs)"

subsection \<open>Wrapped errors\<close>

text \<open>
  An error is labelled when the package made it and its message starts with the category
  label; it is wrapped for an identifier when moreover the identifier occurs in the message.
\<close>

definition label :: string where
  "label = ''[ERR:] [DOCKER] => ''"

definition labelled :: "error \<Rightarrow> bool" where
  "labelled e = (case e of errors_New msg \<Rightarrow> prefix label msg | _ \<Rightarrow> False)"

definition wrapped :: "string \<Rightarrow> error \<Rightarrow> bool" where
  "wrapped ident e = (case e of errors_New msg \<Rightarrow> prefix label msg \<and> sublist ident msg | _ \<Rightarrow> False)"

subsection \<open>Engines for the examples\<close>

text \<open>An engine on which every call succeeds, and the changes to it that the examples use.\<close>

definition engine_ok :: Client where
  "engine_ok =
     \<lparr>ImageBuild = (\<lambda>h ctx opts. (\<lparr>Body = \<lparr>records = [], body_end = io_EOF\<rparr>, OSType = ''linux''\<rparr>, None)),
      ContainerCreate = (\<lambda>h cfg. (\<lparr>CreateResponse.ID = Name cfg, Warnings = []\<rparr>, None)),
      ContainerStart = (\<lambda>h cid. None),
      ContainerStop = (\<lambda>h cid opts. None),
      ContainerRemove = (\<lambda>h cid opts. None),
      ImageInspectWithRaw = (\<lambda>h name. (\<lparr>ImageInspect.ID = ''sha256:'' @ name, RepoTags = [name]\<rparr>, None)),
      ImageRemove = (\<lambda>h iid opts. ([\<lparr>Deleted = iid, Untagged = []\<rparr>], None)),
      ImagesPrune = (\<lambda>h fs. (\<lparr>ImagesDeleted = [], SpaceReclaimed = 0\<rparr>, None)),
      ContainerInspect = (\<lambda>h cid.
        (\<lparr>ContainerJSONBase = Some \<lparr>ContainerJSONBase.ID = cid,
            State = Some \<lparr>Running = True,
              Health = Some \<lparr>Health.Status = ''healthy'', FailingStreak = 0\<rparr>\<rparr>\<rparr>\<rparr>, None)),
      ContainerExecCreate = (\<lambda>h cid opts. (\<lparr>IDResponse.ID = ''exec-1''\<rparr>, None)),
      ContainerExecAttach = (\<lambda>h eid. (\<lparr>Reader = \<lparr>chunks = [], reader_end = io_EOF\<rparr>\<rparr>, None)),
      ContainerExecInspect = (\<lambda>h eid. (\<lparr>ExecID = eid, ExitCode = 0\<rparr>, None))\<rparr>"

definition Tar_ok :: "string \<Rightarrow> string \<times> error option" where
  "Tar_ok path = (''tar of '' @ path, None)"

definition refused :: error where
  "refused = foreign_error ''connection refused''"

text \<open>A build log in which a step fails: the engine reports it in an error record.\<close>

definition failed_build_log :: Body where
  "failed_build_log =
     \<lparr>records =
        [Value (JObject [(''stream'', JString ''Step 1/2 : FROM alpine'')]),
         Value (JObject [(''error'', JString ''The command returned a non-zero code: 1''),
                         (''errorDetail'', JObject [(''code'', JNumber 1)])])],
      body_end = io_EOF\<rparr>"

text \<open>A build log with a record cut short and a field of the wrong type.\<close>

definition garbled_build_log :: Body where
  "garbled_build_log =
     \<lparr>records =
        [Value (JObject [(''stream'', JString ''Step 1/2 : FROM alpine'')]),
         Garbage ''{ stream: Step 2'',
         Value (JObject [(''stream'', JNumber 7)])],
      body_end = io_EOF\<rparr>"

text \<open>
  A build log cut off when the connection to the engine is lost: one record, the start of a
  second, and from then on every read of the body fails with the transport's error.
\<close>

definition broken_build_log :: Body where
  "broken_build_log =
     \<lparr>records =
        [Value (JObject [(''stream'', JString ''Step 1/2 : FROM alpine'')]),
         Garbage ''{ stream: Step 2''],
      body_end = foreign_error ''unexpected EOF''\<rparr>"

definition engine_building :: "Body \<Rightarrow> Client" where
  "engine_building body =
     engine_ok\<lparr>ImageBuild := (\<lambda>h ctx opts. (\<lparr>Body = body, OSType = ''linux''\<rparr>, None))\<rparr>"

text \<open>
  An engine that removes a container that was not stopped only when the removal is forced.
\<close>

fun is_stop_of :: "string \<Rightarrow> event \<Rightarrow> bool" where
  "is_stop_of cid (Call_ContainerStop c opts) = (c = cid)"
| "is_stop_of cid _ = False"

definition engine_guarding :: Client where
  "engine_guarding =
     engine_ok\<lparr>ContainerRemove := (\<lambda>h cid opts.
        if RemoveOptions.Force opts then None
        else if list_ex (is_stop_of cid) h then None
        else Some (foreign_error ''cannot remove a running container''))\<rparr>"

text \<open>An engine whose containers have no healthcheck configured.\<close>

definition engine_no_healthcheck :: Client where
  "engine_no_healthcheck =
     engine_ok\<lparr>ContainerInspect := (\<lambda>h cid.
        (\<lparr>ContainerJSONBase = Some \<lparr>ContainerJSONBase.ID = cid,
            State = Some \<lparr>Running = True, Health = None\<rparr>\<rparr>\<rparr>, None))\<rparr>"

text \<open>An exec whose command wrote to both streams, delivered in three reads.\<close>

definition exec_stream :: Reader where
  "exec_stream =
     \<lparr>chunks =
        [take 3 (encode_frame (Stdout, ''hello '')),
         drop 3 (encode_frame (Stdout, ''hello '')) @ encode_frame (Stderr, ''warning'')
           @ take 6 (encode_frame (Stdout, ''world'')),
         drop 6 (encode_frame (Stdout, ''world''))],
      reader_end = io_EOF\<rparr>"

definition engine_exec :: "int \<Rightarrow> Client" where
  "engine_exec code =
     engine_ok\<lparr>ContainerExecAttach := (\<lambda>h eid. (\<lparr>Reader = exec_stream\<rparr>, None)),
               ContainerExecInspect := (\<lambda>h eid. (\<lparr>ExecID = eid, ExitCode = code\<rparr>, None))\<rparr>"

section \<open>Lemmas\<close>

subsection \<open>Decoding never reports end of stream for a record\<close>

lemma first_error_no_EOF:
  "saved \<noteq> Some io_EOF \<Longrightarrow> new \<noteq> Some io_EOF \<Longrightarrow> first_error saved new \<noteq> Some io_EOF"
  by (cases saved) (simp_all add: first_error_def)

lemma unmarshal_string_no_EOF: "snd (unmarshal_string j old) \<noteq> Some io_EOF"
  by (cases j) (simp_all add: type_error_def)

lemma unmarshal_int_no_EOF: "snd (unmarshal_int j old) \<noteq> Some io_EOF"
  by (cases j) (simp_all add: type_error_def)

lemma ProgressDetail_field_no_EOF:
  "snd acc \<noteq> Some io_EOF \<Longrightarrow> snd (unmarshal_ProgressDetail_field acc kv) \<noteq> Some io_EOF"
  by (simp add: unmarshal_ProgressDetail_field_def split_def Let_def first_error_no_EOF
        unmarshal_int_no_EOF)

lemma foldl_ProgressDetail_no_EOF:
  "snd acc \<noteq> Some io_EOF \<Longrightarrow> snd (foldl unmarshal_ProgressDetail_field acc kvs) \<noteq> Some io_EOF"
  by (induction kvs arbitrary: acc) (simp_all add: ProgressDetail_field_no_EOF)

lemma unmarshal_ProgressDetail_no_EOF: "snd (unmarshal_ProgressDetail j old) \<noteq> Some io_EOF"
  by (cases j) (simp_all add: type_error_def foldl_ProgressDetail_no_EOF)

lemma ImageBuildOut_field_no_EOF:
  "snd acc \<noteq> Some io_EOF \<Longrightarrow> snd (unmarshal_ImageBuildOut_field acc kv) \<noteq> Some io_EOF"
  by (simp add: unmarshal_ImageBuildOut_field_def split_def Let_def first_error_no_EOF
        unmarshal_string_no_EOF unmarshal_ProgressDetail_no_EOF)

lemma foldl_ImageBuildOut_no_EOF:
  "snd acc \<noteq> Some io_EOF \<Longrightarrow> snd (foldl unmarshal_ImageBuildOut_field acc kvs) \<noteq> Some io_EOF"
  by (induction kvs arbitrary: acc) (simp_all add: ImageBuildOut_field_no_EOF)

lemma unmarshal_ImageBuildOut_no_EOF: "snd (unmarshal_ImageBuildOut j old) \<noteq> Some io_EOF"
  by (cases j) (simp_all add: type_error_def foldl_ImageBuildOut_no_EOF)

subsection \<open>The log-drain loop\<close>

lemma Decode_fresh_Nil:
  "records body = [] \<Longrightarrow>
   Decode NewDecoder body v = ((v, Some (body_end body)), \<lparr>dec_err = Some (body_end body)\<rparr>, body)"
  by (simp add: Decode_def NewDecoder_def)

lemma Decode_fresh_Cons:
  "records body = it # rest \<Longrightarrow>
   snd (fst (Decode NewDecoder body v)) \<noteq> Some io_EOF \<and>
   snd (snd (Decode NewDecoder body v)) = body\<lparr>records := rest\<rparr>"
  by (cases it) (simp_all add: Decode_def NewDecoder_def syntax_error_def unmarshal_ImageBuildOut_no_EOF)

lemma loop_Nil_EOF:
  "records body = [] \<Longrightarrow> body_end body = io_EOF \<Longrightarrow> BuildImage_loop body h = Some (h @ [Close_Body])"
  by (subst BuildImage_loop.simps) (simp add: Decode_fresh_Nil)

lemma loop_Cons:
  "records body = it # rest \<Longrightarrow> BuildImage_loop body h = BuildImage_loop (body\<lparr>records := rest\<rparr>) h"
  using Decode_fresh_Cons [of body it rest ImageBuildOut_zero]
  by (subst BuildImage_loop.simps) (simp add: split_def Let_def)

lemma loop_ends:
  "body_end body = io_EOF \<Longrightarrow> BuildImage_loop body h = Some (h @ [Close_Body])"
proof (induction "records body" arbitrary: body)
  case Nil
  then show ?case using loop_Nil_EOF [of body h] by simp
next
  case (Cons it rest)
  have "BuildImage_loop (body\<lparr>records := rest\<rparr>) h = Some (h @ [Close_Body])"
    using Cons.hyps(1) [of "body\<lparr>records := rest\<rparr>"] Cons.prems by simp
  then show ?case using loop_Cons [of body it rest h] Cons.hyps(2) by simp
qed

lemma loop_returns_only_at_EOF:
  assumes "BuildImage_loop body h = Some h'"
  shows "body_end body = io_EOF"
proof (rule BuildImage_loop.raw_induct [where P = "\<lambda>b h y. body_end b = io_EOF", OF _ assms])
  fix loop :: "Body \<Rightarrow> history \<Rightarrow> history option" and b h y
  assume IH: "\<And>b h y. loop b h = Some y \<Longrightarrow> body_end b = io_EOF"
    and step: "(let ((buildOut, outErr), dec, body') = Decode NewDecoder b ImageBuildOut_zero
                in if outErr = Some io_EOF then Some (h @ [Close_Body]) else loop body' h) = Some y"
  show "body_end b = io_EOF"
  proof (cases "records b")
    case Nil
    with step have "(if body_end b = io_EOF then Some (h @ [Close_Body]) else loop b h) = Some y"
      by (simp add: Decode_fresh_Nil)
    then show ?thesis using IH [of b h y] by (simp split: if_splits)
  next
    case (Cons it rest)
    with step Decode_fresh_Cons [OF Cons, of ImageBuildOut_zero]
    have "loop (b\<lparr>records := rest\<rparr>) h = Some y"
      by (simp add: split_def Let_def)
    then show ?thesis using IH [of "b\<lparr>records := rest\<rparr>" h y] by simp
  qed
qed

lemma loop_char:
  "BuildImage_loop body h = (if body_end body = io_EOF then Some (h @ [Close_Body]) else None)"
  using loop_ends [of body h] loop_returns_only_at_EOF [of body h]
  by (cases "BuildImage_loop body h") auto

text \<open>
  The bounded run agrees with the loop: once it has reached the exit, its history is the
  loop's result; and where the body's reads do not end in \<open>io.EOF\<close> it never reaches
  the exit and leaves the history as it was.
\<close>

lemma steps_exit_is_result:
  "fst (BuildImage_loop_steps n body h) \<Longrightarrow>
   BuildImage_loop body h = Some (snd (snd (BuildImage_loop_steps n body h)))"
proof (induction n arbitrary: body)
  case 0
  then show ?case by simp
next
  case (Suc n)
  show ?case
  proof (cases "records body")
    case Nil
    with Suc.prems have "body_end body = io_EOF"
      by (simp add: Decode_fresh_Nil split: if_splits) (metis Suc.IH loop_returns_only_at_EOF)
    with Nil show ?thesis
      by (simp add: Decode_fresh_Nil loop_ends)
  next
    case (Cons it rest)
    with Decode_fresh_Cons [OF Cons, of ImageBuildOut_zero] Suc.prems
    have "fst (BuildImage_loop_steps n (body\<lparr>records := rest\<rparr>) h)"
      and "BuildImage_loop_steps (Suc n) body h = BuildImage_loop_steps n (body\<lparr>records := rest\<rparr>) h"
      by (simp_all add: split_def Let_def)
    then show ?thesis
      using Suc.IH [of "body\<lparr>records := rest\<rparr>"] loop_Cons [OF Cons, of h] by simp
  qed
qed

lemma steps_never_exit:
  "body_end body \<noteq> io_EOF \<Longrightarrow>
   \<not> fst (BuildImage_loop_steps n body h) \<and> snd (snd (BuildImage_loop_steps n body h)) = h"
proof (induction n arbitrary: body)
  case 0
  show ?case by simp
next
  case (Suc n)
  show ?case
  proof (cases "records body")
    case Nil
    with Suc.prems have "BuildImage_loop_steps (Suc n) body h = BuildImage_loop_steps n body h"
      by (simp add: Decode_fresh_Nil)
    with Suc.IH [OF Suc.prems] show ?thesis by simp
  next
    case (Cons it rest)
    with Decode_fresh_Cons [OF Cons, of ImageBuildOut_zero]
    have "BuildImage_loop_steps (Suc n) body h = BuildImage_loop_steps n (body\<lparr>records := rest\<rparr>) h"
      by (simp add: split_def Let_def)
    with Suc.IH [of "body\<lparr>records := rest\<rparr>"] Suc.prems show ?thesis by simp
  qed
qed

subsection \<open>Frames and reads\<close>

lemma Uint32_PutUint32:
  assumes "n < 4294967296"
  shows "BigEndian_Uint32 (BigEndian_PutUint32 n @ rest) = n"
proof -
  define q1 where "q1 = n div 256"
  define q2 where "q2 = q1 div 256"
  define q3 where "q3 = q2 div 256"
  have d2: "n div 65536 = q2"
    by (simp add: q2_def q1_def div_mult2_eq)
  have d3: "n div 16777216 = q3"
    by (simp add: q3_def q2_def q1_def div_mult2_eq)
  have "q3 < 256"
    using assms by (simp add: d3 [symmetric])
  then have s3: "q3 mod 256 * 256 + q2 mod 256 = q2"
    by (simp add: q3_def)
  have s2: "q2 * 256 + q1 mod 256 = q1"
    by (simp add: q2_def)
  have s1: "q1 * 256 + n mod 256 = n"
    by (simp add: q1_def)
  have "BigEndian_Uint32 (BigEndian_PutUint32 n @ rest)
          = ((q3 mod 256 * 256 + q2 mod 256) * 256 + q1 mod 256) * 256 + n mod 256"
    by (simp add: BigEndian_Uint32_def BigEndian_PutUint32_def d2 d3 q1_def [symmetric])
  also have "\<dots> = n"
    by (simp only: s3 s2 s1)
  finally show ?thesis .
qed

lemma length_PutUint32: "length (BigEndian_PutUint32 n) = 4"
  by (simp add: BigEndian_PutUint32_def)

lemma emit_frames_short:
  "length buf < header_len \<Longrightarrow> emit_frames buf outBuf errBuf = Inr (buf, outBuf, errBuf)"
  by (simp add: emit_frames.simps)

text \<open>Bytes that arrive later do not change the frames already taken off the buffer.\<close>

lemma emit_frames_append:
  "emit_frames (buf @ late) outBuf errBuf =
     (case emit_frames buf outBuf errBuf of
        Inl e \<Rightarrow> Inl e
      | Inr (buf', outBuf', errBuf') \<Rightarrow> emit_frames (buf' @ late) outBuf' errBuf')"
proof (induction buf outBuf errBuf rule: emit_frames.induct)
  case (1 buf outBuf errBuf)
  show ?case
  proof (cases "length buf < header_len")
    case True
    then show ?thesis by (simp add: emit_frames_short)
  next
    case long: False
    then have "buf \<noteq> []"
      by (auto simp: header_len_def)
    then have hd_eq: "hd (buf @ late) = hd buf"
      by simp
    have len: "\<not> length (buf @ late) < header_len"
      using long by simp
    have sz: "BigEndian_Uint32 (drop 1 (buf @ late)) = BigEndian_Uint32 (drop 1 buf)"
      using long by (simp add: BigEndian_Uint32_def header_len_def)
    show ?thesis
    proof (cases "hd buf \<noteq> origin_tag Stdout \<and> hd buf \<noteq> origin_tag Stderr")
      case True
      with long len hd_eq show ?thesis
        by (subst emit_frames.simps, subst (2) emit_frames.simps) simp
    next
      case tag: False
      define n where "n = BigEndian_Uint32 (drop 1 buf)"
      show ?thesis
      proof (cases "length buf < header_len + n")
        case True
        then have "emit_frames buf outBuf errBuf = Inr (buf, outBuf, errBuf)"
          using long tag by (subst emit_frames.simps) (simp add: n_def)
        then show ?thesis by simp
      next
        case whole: False
        then have dr: "drop (header_len + n) (buf @ late) = drop (header_len + n) buf @ late"
          and tk: "take n (drop header_len (buf @ late)) = take n (drop header_len buf)"
          by auto
        show ?thesis
        proof (cases "hd buf = origin_tag Stdout")
          case True
          have l: "emit_frames (buf @ late) outBuf errBuf =
                   emit_frames (drop (header_len + n) buf @ late) (outBuf @ take n (drop header_len buf)) errBuf"
            using long len tag whole True hd_eq sz dr tk
            by (subst emit_frames.simps) (simp add: n_def Let_def)
          have r: "emit_frames buf outBuf errBuf =
                   emit_frames (drop (header_len + n) buf) (outBuf @ take n (drop header_len buf)) errBuf"
            using long tag whole True
            by (subst emit_frames.simps) (simp add: n_def Let_def)
          show ?thesis
            using "1.IH"(1) [OF long tag n_def whole True] l r
            by simp
        next
          case False
          have l: "emit_frames (buf @ late) outBuf errBuf =
                   emit_frames (drop (header_len + n) buf @ late) outBuf (errBuf @ take n (drop header_len buf))"
            using long len tag whole False hd_eq sz dr tk
            by (subst emit_frames.simps) (simp add: n_def Let_def)
          have r: "emit_frames buf outBuf errBuf =
                   emit_frames (drop (header_len + n) buf) outBuf (errBuf @ take n (drop header_len buf))"
            using long tag whole False
            by (subst emit_frames.simps) (simp add: n_def Let_def)
          show ?thesis
            using "1.IH"(2) [OF long tag n_def whole False] l r
            by simp
        qed
      qed
    qed
  qed
qed

lemma emit_frames_encode_frame:
  assumes "length (snd f) < 4294967296"
  shows "emit_frames (encode_frame f @ rest) outBuf errBuf =
           emit_frames rest (outBuf @ payloads_of Stdout [f]) (errBuf @ payloads_of Stderr [f])"
proof -
  obtain og p where f: "f = (og, p)" by (cases f)
  define w where "w = encode_frame f @ rest"
  have sz: "BigEndian_Uint32 (drop 1 w) = length p"
    using assms Uint32_PutUint32 [of "length p" "p @ rest"] by (simp add: w_def encode_frame_def f)
  have len: "length w = header_len + length p + length rest"
    by (simp add: w_def encode_frame_def f header_len_def length_PutUint32)
  define hdr where "hdr = origin_tag og # BigEndian_PutUint32 (length p)"
  have hl: "length hdr = header_len"
    by (simp add: hdr_def header_len_def length_PutUint32)
  have w: "w = hdr @ p @ rest"
    by (simp add: w_def hdr_def encode_frame_def f)
  have dr: "drop (header_len + length p) w = rest"
    using hl by (simp add: w)
  have tk: "take (length p) (drop header_len w) = p"
    using hl by (simp add: w)
  have hd: "hd w = origin_tag og"
    by (simp add: w_def encode_frame_def f)
  have "emit_frames w outBuf errBuf =
          emit_frames rest (outBuf @ payloads_of Stdout [f]) (errBuf @ payloads_of Stderr [f])"
    using sz len dr tk hd
    by (subst emit_frames.simps, cases og) (simp_all add: Let_def payloads_of_def f)
  then show ?thesis by (simp add: w_def)
qed

lemma payloads_of_Cons: "payloads_of og (f # fs) = payloads_of og [f] @ payloads_of og fs"
  by (simp add: payloads_of_def)

lemma emit_frames_wire:
  "\<forall>f \<in> set fs. length (snd f) < 4294967296 \<Longrightarrow>
   emit_frames (wire fs @ rest) outBuf errBuf =
     emit_frames rest (outBuf @ payloads_of Stdout fs) (errBuf @ payloads_of Stderr fs)"
proof (induction fs arbitrary: outBuf errBuf)
  case Nil
  show ?case by (simp add: wire_def payloads_of_def)
next
  case (Cons f fs)
  have "emit_frames (wire (f # fs) @ rest) outBuf errBuf =
        emit_frames (encode_frame f @ (wire fs @ rest)) outBuf errBuf"
    by (simp add: wire_def)
  also have "\<dots> = emit_frames (wire fs @ rest)
                     (outBuf @ payloads_of Stdout [f]) (errBuf @ payloads_of Stderr [f])"
    using Cons.prems by (simp add: emit_frames_encode_frame)
  also have "\<dots> = emit_frames rest
                     ((outBuf @ payloads_of Stdout [f]) @ payloads_of Stdout fs)
                     ((errBuf @ payloads_of Stderr [f]) @ payloads_of Stderr fs)"
    using Cons.prems by (intro Cons.IH) simp
  finally show ?case
    by (simp add: payloads_of_Cons [of _ f fs])
qed

lemma emit_frames_leftover:
  "emit_frames buf outBuf errBuf = Inr (buf', outBuf', errBuf') \<Longrightarrow>
   emit_frames buf' outBuf2 errBuf2 = Inr (buf', outBuf2, errBuf2)"
proof (induction buf outBuf errBuf rule: emit_frames.induct)
  case (1 buf outBuf errBuf)
  show ?case
  proof (cases "length buf < header_len")
    case True
    with "1.prems" show ?thesis by (simp add: emit_frames_short)
  next
    case long: False
    show ?thesis
    proof (cases "hd buf \<noteq> origin_tag Stdout \<and> hd buf \<noteq> origin_tag Stderr")
      case True
      with long have "emit_frames buf outBuf errBuf = Inl unrecognized_header"
        by (subst emit_frames.simps) simp
      with "1.prems" show ?thesis by simp
    next
      case tag: False
      define n where "n = BigEndian_Uint32 (drop 1 buf)"
      show ?thesis
      proof (cases "length buf < header_len + n")
        case True
        with long tag have stay: "\<And>a b. emit_frames buf a b = Inr (buf, a, b)"
          by (subst emit_frames.simps) (simp add: n_def)
        with "1.prems" have "buf' = buf" by simp
        with stay show ?thesis by simp
      next
        case whole: False
        show ?thesis
        proof (cases "hd buf = origin_tag Stdout")
          case True
          have "emit_frames buf outBuf errBuf =
                emit_frames (drop (header_len + n) buf) (outBuf @ take n (drop header_len buf)) errBuf"
            using long tag whole True
            by (subst emit_frames.simps) (simp add: n_def Let_def)
          with "1.prems" show ?thesis
            by (intro "1.IH"(1) [OF long tag n_def whole True]) simp
        next
          case False
          have "emit_frames buf outBuf errBuf =
                emit_frames (drop (header_len + n) buf) outBuf (errBuf @ take n (drop header_len buf))"
            using long tag whole False
            by (subst emit_frames.simps) (simp add: n_def Let_def)
          with "1.prems" show ?thesis
            by (intro "1.IH"(2) [OF long tag n_def whole False]) simp
        qed
      qed
    qed
  qed
qed

lemma StdCopy_loop_one_shot:
  assumes "\<And>outBuf errBuf. emit_frames buf outBuf errBuf = Inr (buf, outBuf, errBuf)"
    and "emit_frames (buf @ concat cs) outBuf errBuf = Inr (buf', outBuf', errBuf')"
  shows "StdCopy_loop cs io_EOF buf outBuf errBuf = ((outBuf', errBuf'), None)"
  using assms
proof (induction cs arbitrary: buf outBuf errBuf)
  case Nil
  then show ?case by simp
next
  case (Cons c cs)
  have "emit_frames ((buf @ c) @ concat cs) outBuf errBuf = Inr (buf', outBuf', errBuf')"
    using Cons.prems(2) by simp
  then obtain b1 o1 e1 where
    step: "emit_frames (buf @ c) outBuf errBuf = Inr (b1, o1, e1)" and
    rest: "emit_frames (b1 @ concat cs) o1 e1 = Inr (buf', outBuf', errBuf')"
    by (subst (asm) emit_frames_append) (auto split: sum.splits)
  have "StdCopy_loop cs io_EOF b1 o1 e1 = ((outBuf', errBuf'), None)"
    using emit_frames_leftover [OF step] rest by (rule Cons.IH)
  with step show ?case by simp
qed

subsection \<open>BuildImage after a successful submission\<close>

lemma BuildImage_submitted:
  assumes "Tar path = (buildCtx, None)"
    and "ImageBuild DockerClient h buildCtx (buildOptions imageName) = (resp, None)"
  shows "BuildImage Tar DockerClient path imageName h =
           (if body_end (Body resp) = io_EOF
            then Some (None, h @ [Call_ImageBuild buildCtx (buildOptions imageName), Close_Body])
            else None)"
  using assms by (simp add: BuildImage_def loop_char)

subsection \<open>The copy as one pass over the whole stream\<close>

lemma StdCopy_one_shot:
  assumes "emit_frames (concat (chunks src)) [] [] = Inr (buf', outBuf', errBuf')"
    and "reader_end src = io_EOF"
  shows "StdCopy src = ((outBuf', errBuf'), None)"
  using assms StdCopy_loop_one_shot [of "[]" "chunks src" "[]" "[]" buf' outBuf' errBuf']
  by (simp add: StdCopy_def emit_frames_short header_len_def)

lemma emit_frames_all:
  assumes "\<forall>f \<in> set fs. length (snd f) < 4294967296"
  shows "emit_frames (wire fs) [] [] = Inr ([], payloads_of Stdout fs, payloads_of Stderr fs)"
  using emit_frames_wire [OF assms, of "[]" "[]" "[]"]
  by (simp add: emit_frames_short header_len_def)

lemma exec_stream_wire:
  "concat (chunks exec_stream) = wire [(Stdout, ''hello ''), (Stderr, ''warning''), (Stdout, ''world'')]"
  by (simp add: exec_stream_def wire_def)

lemma StdCopy_exec_stream: "StdCopy exec_stream = ((''hello world'', ''warning''), None)"
proof -
  have "emit_frames (concat (chunks exec_stream)) [] [] =
          Inr ([], payloads_of Stdout [(Stdout, ''hello ''), (Stderr, ''warning''), (Stdout, ''world'')],
                   payloads_of Stderr [(Stdout, ''hello ''), (Stderr, ''warning''), (Stdout, ''world'')])"
    unfolding exec_stream_wire by (rule emit_frames_all) simp
  moreover have "reader_end exec_stream = io_EOF"
    by (simp add: exec_stream_def)
  ultimately have "StdCopy exec_stream =
     ((payloads_of Stdout [(Stdout, ''hello ''), (Stderr, ''warning''), (Stdout, ''world'')],
       payloads_of Stderr [(Stdout, ''hello ''), (Stderr, ''warning''), (Stdout, ''world'')]), None)"
    by (rule StdCopy_one_shot)
  then show ?thesis
    by (simp add: payloads_of_def)
qed

lemma Sprint_137: "Sprint 137 = ''137''"
  by code_simp

subsection \<open>Errors made by the package\<close>

lemma wrappedI: "wrapped ident (errors_New (label @ pre @ ident @ post))"
proof -
  have "sublist ident ((label @ pre) @ ident @ post)"
    by (rule sublist_appendI)
  then show ?thesis
    by (simp add: wrapped_def)
qed

lemma BuildImage_wraps:
  "BuildImage Tar DockerClient path imageName h = Some (Some e, h') \<Longrightarrow> wrapped imageName e"
  using wrappedI [of imageName "''FAILED TO CREATE BUILD CONTEXT FOR IMAGE ''"]
        wrappedI [of imageName "''FAILED TO BUILD IMAGE ''"]
  by (auto simp: BuildImage_def split_def Let_def label_def split: option.splits)

lemma CreateContainer_wraps:
  "fst (CreateContainer DockerClient (Some config) h) = Returns (res, Some e) \<Longrightarrow> wrapped (Name config) e"
  using wrappedI [of "Name config" "''FAILED TO CREATE CONTAINER ''"]
  by (auto simp: CreateContainer_def split_def Let_def label_def split: option.splits)

lemma StartContainer_wraps:
  "fst (StartContainer DockerClient cont h) = Some e \<Longrightarrow> wrapped (CreateResponse.ID cont) e"
  using wrappedI [of "CreateResponse.ID cont" "''FAILED TO START CONTAINER WITH ID: ''"]
  by (auto simp: StartContainer_def Let_def label_def split: option.splits)

lemma StopContainer_wraps:
  "fst (StopContainer DockerClient containerID h) = Some e \<Longrightarrow> wrapped containerID e"
  using wrappedI [of containerID "''FAILED TO STOP CONTAINER WITH ID: ''"]
  by (auto simp: StopContainer_def Let_def label_def split: option.splits)

lemma PurgeContainer_wraps:
  "fst (PurgeContainer DockerClient containerID h) = Some e \<Longrightarrow> wrapped containerID e"
  using wrappedI [of containerID "''FAILED TO PURGE CONTAINER WITH ID: ''"]
  by (auto simp: PurgeContainer_def Let_def label_def split: option.splits)

lemma DeleteImage_wraps:
  "fst (DeleteImage DockerClient imageName h) = (existed, Some e) \<Longrightarrow> wrapped imageName e"
  using wrappedI [of imageName "''FAILED TO DELETE IMAGE: ''"]
  by (auto simp: DeleteImage_def split_def Let_def label_def split: option.splits if_splits)

lemma PruneDanglingImages_labels:
  "fst (PruneDanglingImages DockerClient h) = (report, Some e) \<Longrightarrow> labelled e"
  by (auto simp: PruneDanglingImages_def split_def Let_def labelled_def label_def split: option.splits)

lemma Exec_labels:
  "fst (Exec DockerClient containerID cmd h) = (out, Some e) \<Longrightarrow> labelled e"
  by (auto simp: Exec_def split_def Let_def labelled_def label_def split: option.splits if_splits)

section \<open>The claims\<close>

subsection \<open>C1: the result of a build and the build log\<close>

text \<open>
  C1 as stated: after a successful submission \<open>BuildImage\<close> returns nil if and only if
  end-of-stream is reached with no error record observed, and a stream with an error record
  makes it return a failure. This fails: on \<open>failed_build_log\<close>, whose second record is
  an error record, \<open>BuildImage\<close> returns nil. \<open>ImageBuildOut\<close> has no field for the
  \<open>error\<close> key and the loop reads nothing of the decoded record.
\<close>

theorem BuildImage_ignores_error_record:
  "list_ex is_error_record (records failed_build_log)
   \<and> BuildImage Tar_ok (engine_building failed_build_log) ''ctx'' ''app:latest'' [] =
       Some (None, [Call_ImageBuild ''tar of ctx'' (buildOptions ''app:latest''), Close_Body])"
proof -
  have "Tar_ok ''ctx'' = (''tar of ctx'', None)"
    by (simp add: Tar_ok_def)
  moreover have "ImageBuild (engine_building failed_build_log) [] ''tar of ctx'' (buildOptions ''app:latest'')
                   = (\<lparr>Body = failed_build_log, OSType = ''linux''\<rparr>, None)"
    by (simp add: engine_building_def)
  ultimately have "BuildImage Tar_ok (engine_building failed_build_log) ''ctx'' ''app:latest'' [] =
       Some (None, [Call_ImageBuild ''tar of ctx'' (buildOptions ''app:latest''), Close_Body])"
    by (simp add: BuildImage_submitted failed_build_log_def)
  then show ?thesis
    by (simp add: failed_build_log_def)
qed

text \<open>
  C1, amended: after a successful submission \<open>BuildImage\<close> returns nil, with the body
  closed, if and only if the build-log stream reaches end-of-stream, whatever records it
  carried, error records included; and it never returns a failure.
\<close>

theorem BuildImage_success_iff_end_of_stream:
  assumes "Tar path = (buildCtx, None)"
    and "ImageBuild DockerClient h buildCtx (buildOptions imageName) = (resp, None)"
  shows "(BuildImage Tar DockerClient path imageName h =
            Some (None, h @ [Call_ImageBuild buildCtx (buildOptions imageName), Close_Body]))
           = (body_end (Body resp) = io_EOF)
         \<and> BuildImage Tar DockerClient path imageName h \<noteq> Some (Some e, h')"
  using assms by (simp add: BuildImage_submitted)

theorem BuildImage_success_iff_end_of_stream_witness:
  "Tar_ok ''ctx'' = (''tar of ctx'', None)
   \<and> ImageBuild (engine_building failed_build_log) [] ''tar of ctx'' (buildOptions ''app:latest'')
       = (\<lparr>Body = failed_build_log, OSType = ''linux''\<rparr>, None)
   \<and> body_end failed_build_log = io_EOF
   \<and> BuildImage Tar_ok (engine_building failed_build_log) ''ctx'' ''app:latest'' [] =
       Some (None, [Call_ImageBuild ''tar of ctx'' (buildOptions ''app:latest''), Close_Body])"
proof -
  have t: "Tar_ok ''ctx'' = (''tar of ctx'', None)"
    by (simp add: Tar_ok_def)
  have b: "ImageBuild (engine_building failed_build_log) [] ''tar of ctx'' (buildOptions ''app:latest'')
             = (\<lparr>Body = failed_build_log, OSType = ''linux''\<rparr>, None)"
    by (simp add: engine_building_def)
  have e: "body_end failed_build_log = io_EOF"
    by (simp add: failed_build_log_def)
  show ?thesis
    using BuildImage_success_iff_end_of_stream
            [where Tar = Tar_ok and path = "''ctx''" and buildCtx = "''tar of ctx''"
               and DockerClient = "engine_building failed_build_log" and h = "[]"
               and imageName = "''app:latest''"
               and resp = "\<lparr>Body = failed_build_log, OSType = ''linux''\<rparr>"
               and e = refused and h' = "[]"]
          t b e
    by simp
qed

subsection \<open>C2: closing the response body\<close>

text \<open>
  Where the stream ends in \<open>io.EOF\<close>, \<open>BuildImage\<close> returns after a successful
  submission and has closed the body exactly once, whatever the records were.
\<close>

lemma BuildImage_closes_once_at_end_of_stream:
  assumes "Tar path = (buildCtx, None)"
    and "ImageBuild DockerClient h buildCtx (buildOptions imageName) = (resp, None)"
    and "body_end (Body resp) = io_EOF"
  shows "BuildImage Tar DockerClient path imageName h =
           Some (None, h @ [Call_ImageBuild buildCtx (buildOptions imageName), Close_Body])
         \<and> closes (h @ [Call_ImageBuild buildCtx (buildOptions imageName), Close_Body]) = closes h + 1"
  using assms by (simp add: BuildImage_submitted closes_def)

text \<open>
  C2: the claim is that after the build request has been submitted the response body is closed
  exactly once on every way out, a failure and a record that fails to decode included, never
  zero times. On \<open>broken_build_log\<close> the submission succeeds, the decode of the cut record
  fails, and every later read of the body fails with an error that is not \<open>io.EOF\<close>: after
  any number \<open>n\<close> of iterations the loop has not reached its exit and the body has been
  closed zero times. The code has no exit for a failure or a decode error; its one exit is the
  \<open>io.EOF\<close> test.
\<close>

theorem BuildImage_never_closes_broken_stream:
  "ImageBuild (engine_building broken_build_log) [] (fst (Tar_ok ''ctx'')) (buildOptions ''app:latest'')
     = (\<lparr>Body = broken_build_log, OSType = ''linux''\<rparr>, None)
   \<and> \<not> fst (BuildImage_loop_steps n broken_build_log
              [Call_ImageBuild ''tar of ctx'' (buildOptions ''app:latest'')])
   \<and> closes (snd (snd (BuildImage_loop_steps n broken_build_log
              [Call_ImageBuild ''tar of ctx'' (buildOptions ''app:latest'')]))) = 0"
proof -
  have "body_end broken_build_log \<noteq> io_EOF"
    by (simp add: broken_build_log_def)
  then show ?thesis
    using steps_never_exit [of broken_build_log n "[Call_ImageBuild ''tar of ctx'' (buildOptions ''app:latest'')]"]
    by (simp add: engine_building_def closes_def)
qed

subsection \<open>C3: DeleteImage\<close>

text \<open>
  C3: if the inspection fails, \<open>DeleteImage\<close> returns \<open>(false, nil)\<close> and its only call
  was the inspection (no removal attempted); if the image exists and the removal succeeds it
  returns \<open>(true, nil)\<close>; if the image exists and the removal fails it returns
  \<open>(true, err)\<close>. The removal is forced and prunes children.
\<close>

theorem DeleteImage_contract:
  "(ImageInspectWithRaw DockerClient h imageName = (img, Some e) \<longrightarrow>
      DeleteImage DockerClient imageName h = ((False, None), h @ [Call_ImageInspectWithRaw imageName]))
   \<and> (ImageInspectWithRaw DockerClient h imageName = (img, None) \<and>
        snd (ImageRemove DockerClient (h @ [Call_ImageInspectWithRaw imageName]) (ImageInspect.ID img)
               \<lparr>ImageRemoveOptions.Force = True, PruneChildren = True\<rparr>) = None \<longrightarrow>
      DeleteImage DockerClient imageName h =
        ((True, None),
         h @ [Call_ImageInspectWithRaw imageName,
              Call_ImageRemove (ImageInspect.ID img) \<lparr>ImageRemoveOptions.Force = True, PruneChildren = True\<rparr>]))
   \<and> (ImageInspectWithRaw DockerClient h imageName = (img, None) \<and>
        snd (ImageRemove DockerClient (h @ [Call_ImageInspectWithRaw imageName]) (ImageInspect.ID img)
               \<lparr>ImageRemoveOptions.Force = True, PruneChildren = True\<rparr>) = Some e \<longrightarrow>
      DeleteImage DockerClient imageName h =
        ((True, Some (errors_New (''[ERR:] [DOCKER] => FAILED TO DELETE IMAGE: '' @ imageName
                                   @ '' | => '' @ Error e))),
         h @ [Call_ImageInspectWithRaw imageName,
              Call_ImageRemove (ImageInspect.ID img) \<lparr>ImageRemoveOptions.Force = True, PruneChildren = True\<rparr>]))"
  by (simp add: DeleteImage_def split_def Let_def)

theorem DeleteImage_contract_witness:
  "DeleteImage (engine_ok\<lparr>ImageInspectWithRaw := (\<lambda>h name. (\<lparr>ImageInspect.ID = [], RepoTags = []\<rparr>, Some refused))\<rparr>)
     ''app:latest'' [] = ((False, None), [Call_ImageInspectWithRaw ''app:latest''])
   \<and> DeleteImage engine_ok ''app:latest'' [] =
       ((True, None),
        [Call_ImageInspectWithRaw ''app:latest'',
         Call_ImageRemove ''sha256:app:latest'' \<lparr>ImageRemoveOptions.Force = True, PruneChildren = True\<rparr>])
   \<and> DeleteImage (engine_ok\<lparr>ImageRemove := (\<lambda>h iid opts. ([], Some refused))\<rparr>) ''app:latest'' [] =
       ((True, Some (errors_New ''[ERR:] [DOCKER] => FAILED TO DELETE IMAGE: app:latest | => connection refused'')),
        [Call_ImageInspectWithRaw ''app:latest'',
         Call_ImageRemove ''sha256:app:latest'' \<lparr>ImageRemoveOptions.Force = True, PruneChildren = True\<rparr>])"
  using
    DeleteImage_contract [of "engine_ok\<lparr>ImageInspectWithRaw := (\<lambda>h name. (\<lparr>ImageInspect.ID = [], RepoTags = []\<rparr>, Some refused))\<rparr>"
      "[]" "''app:latest''" "\<lparr>ImageInspect.ID = [], RepoTags = []\<rparr>" refused]
    DeleteImage_contract [of engine_ok "[]" "''app:latest''"
      "\<lparr>ImageInspect.ID = ''sha256:app:latest'', RepoTags = [''app:latest'']\<rparr>" refused]
    DeleteImage_contract [of "engine_ok\<lparr>ImageRemove := (\<lambda>h iid opts. ([], Some refused))\<rparr>" "[]" "''app:latest''"
      "\<lparr>ImageInspect.ID = ''sha256:app:latest'', RepoTags = [''app:latest'']\<rparr>" refused]
  by (simp add: engine_ok_def refused_def)

subsection \<open>C4: Exec and the exit code\<close>

text \<open>
  C4: when \<open>Exec\<close> reaches the final inspection (create, attach and copy succeeded and the
  inspection answered), exit code 0 returns the accumulated stdout and no error; any other
  exit code returns the empty string and an error whose message is the fixed text, the exit
  code in decimal and the accumulated stderr: stdout is in neither.
\<close>

theorem Exec_exit_code:
  assumes "ContainerExecCreate DockerClient h containerID
             \<lparr>Cmd = cmd, AttachStdout = True, AttachStderr = True\<rparr> = (execIDResp, None)"
    and "ContainerExecAttach DockerClient
           (h @ [Call_ContainerExecCreate containerID \<lparr>Cmd = cmd, AttachStdout = True, AttachStderr = True\<rparr>])
           (IDResponse.ID execIDResp) = (resp, None)"
    and "StdCopy (Reader resp) = ((outBuf, errBuf), None)"
    and "ContainerExecInspect DockerClient
           (h @ [Call_ContainerExecCreate containerID \<lparr>Cmd = cmd, AttachStdout = True, AttachStderr = True\<rparr>,
                 Call_ContainerExecAttach (IDResponse.ID execIDResp)])
           (IDResponse.ID execIDResp) = (execInspectResp, None)"
  shows "fst (Exec DockerClient containerID cmd h) =
           (if ExitCode execInspectResp = 0 then (outBuf, None)
            else ([], Some (errors_New (''[ERR:] [DOCKER] => COMMAND EXITIED WITH CODE ''
                                         @ Sprint (ExitCode execInspectResp) @ '' => '' @ errBuf))))"
  using assms by (simp add: Exec_def)

theorem Exec_exit_code_witness:
  "fst (Exec (engine_exec 0) ''web'' [''sh'', ''-c'', ''greet''] []) = (''hello world'', None)
   \<and> fst (Exec (engine_exec 137) ''web'' [''sh'', ''-c'', ''greet''] []) =
       ([], Some (errors_New ''[ERR:] [DOCKER] => COMMAND EXITIED WITH CODE 137 => warning''))"
proof -
  have zero: "fst (Exec (engine_exec 0) ''web'' [''sh'', ''-c'', ''greet''] []) = (''hello world'', None)"
    using Exec_exit_code [where DockerClient = "engine_exec 0" and h = "[]" and containerID = "''web''"
        and cmd = "[''sh'', ''-c'', ''greet'']" and execIDResp = "\<lparr>IDResponse.ID = ''exec-1''\<rparr>"
        and resp = "\<lparr>Reader = exec_stream\<rparr>" and outBuf = "''hello world''" and errBuf = "''warning''"
        and execInspectResp = "\<lparr>ExecID = ''exec-1'', ExitCode = 0\<rparr>"]
    by (simp add: engine_exec_def engine_ok_def StdCopy_exec_stream)
  have nonzero: "fst (Exec (engine_exec 137) ''web'' [''sh'', ''-c'', ''greet''] []) =
       ([], Some (errors_New ''[ERR:] [DOCKER] => COMMAND EXITIED WITH CODE 137 => warning''))"
    using Exec_exit_code [where DockerClient = "engine_exec 137" and h = "[]" and containerID = "''web''"
        and cmd = "[''sh'', ''-c'', ''greet'']" and execIDResp = "\<lparr>IDResponse.ID = ''exec-1''\<rparr>"
        and resp = "\<lparr>Reader = exec_stream\<rparr>" and outBuf = "''hello world''" and errBuf = "''warning''"
        and execInspectResp = "\<lparr>ExecID = ''exec-1'', ExitCode = 137\<rparr>"]
    by (simp add: engine_exec_def engine_ok_def StdCopy_exec_stream Sprint_137)
  show ?thesis
    using zero nonzero by simp
qed

subsection \<open>C5: wrapping of errors\<close>

text \<open>
  C5 as stated: every error an operation returns is wrapped with the category label and the
  offending identifier, and no engine error is returned unwrapped. This fails twice:
  \<open>GetContainerHealthStatus\<close> returns the engine's error as it got it, and the errors of
  \<open>Exec\<close> carry the label but neither the container identity nor the command.
\<close>

theorem GetContainerHealthStatus_error_not_wrapped:
  "fst (GetContainerHealthStatus
          (engine_ok\<lparr>ContainerInspect := (\<lambda>h cid. (\<lparr>ContainerJSONBase = None\<rparr>, Some refused))\<rparr>) ''web'' [])
     = Returns (''unhealthy'', Some refused)
   \<and> \<not> labelled refused
   \<and> \<not> wrapped ''web'' refused
   \<and> fst (Exec (engine_ok\<lparr>ContainerExecCreate := (\<lambda>h cid opts. (\<lparr>IDResponse.ID = []\<rparr>, Some refused))\<rparr>)
              ''web'' [''ls''] [])
       = ([], Some (errors_New ''[ERR:] [DOCKER] => FAILED TO CREATE EXEC ISNTANCE => connection refused''))
   \<and> \<not> wrapped ''web'' (errors_New ''[ERR:] [DOCKER] => FAILED TO CREATE EXEC ISNTANCE => connection refused'')
   \<and> \<not> wrapped ''ls'' (errors_New ''[ERR:] [DOCKER] => FAILED TO CREATE EXEC ISNTANCE => connection refused'')"
proof -
  have health: "fst (GetContainerHealthStatus
          (engine_ok\<lparr>ContainerInspect := (\<lambda>h cid. (\<lparr>ContainerJSONBase = None\<rparr>, Some refused))\<rparr>) ''web'' [])
     = Returns (''unhealthy'', Some refused)"
    by (simp add: GetContainerHealthStatus_def)
  have raw: "\<not> labelled refused" "\<not> wrapped ''web'' refused"
    by (simp_all add: labelled_def wrapped_def refused_def)
  have exec: "fst (Exec (engine_ok\<lparr>ContainerExecCreate := (\<lambda>h cid opts. (\<lparr>IDResponse.ID = []\<rparr>, Some refused))\<rparr>)
              ''web'' [''ls''] [])
       = ([], Some (errors_New ''[ERR:] [DOCKER] => FAILED TO CREATE EXEC ISNTANCE => connection refused''))"
    by (simp add: Exec_def refused_def)
  have noid: "\<not> sublist ''web'' ''[ERR:] [DOCKER] => FAILED TO CREATE EXEC ISNTANCE => connection refused''"
    "\<not> sublist ''ls'' ''[ERR:] [DOCKER] => FAILED TO CREATE EXEC ISNTANCE => connection refused''"
    by code_simp+
  show ?thesis
    using health raw exec noid by (simp add: wrapped_def)
qed

text \<open>
  C5, amended: every error returned by \<open>BuildImage\<close>, \<open>CreateContainer\<close>,
  \<open>StartContainer\<close>, \<open>StopContainer\<close>, \<open>PurgeContainer\<close> and \<open>DeleteImage\<close> is an
  error made by the package whose message starts with the label and contains the offending
  identifier (image name, container name or container ID); every error returned by
  \<open>PruneDanglingImages\<close> and \<open>Exec\<close> is an error made by the package whose message
  starts with the label.
\<close>

theorem returned_errors_are_labelled:
  "(BuildImage Tar DockerClient path imageName h = Some (Some e, h') \<longrightarrow> wrapped imageName e)
   \<and> (fst (CreateContainer DockerClient (Some config) h) = Returns (res, Some e) \<longrightarrow> wrapped (Name config) e)
   \<and> (fst (StartContainer DockerClient cont h) = Some e \<longrightarrow> wrapped (CreateResponse.ID cont) e)
   \<and> (fst (StopContainer DockerClient containerID h) = Some e \<longrightarrow> wrapped containerID e)
   \<and> (fst (PurgeContainer DockerClient containerID h) = Some e \<longrightarrow> wrapped containerID e)
   \<and> (fst (DeleteImage DockerClient imageName h) = (existed, Some e) \<longrightarrow> wrapped imageName e)
   \<and> (fst (PruneDanglingImages DockerClient h) = (report, Some e) \<longrightarrow> labelled e)
   \<and> (fst (Exec DockerClient containerID cmd h) = (out, Some e) \<longrightarrow> labelled e)"
  by (intro conjI impI;
      erule BuildImage_wraps CreateContainer_wraps StartContainer_wraps StopContainer_wraps
        PurgeContainer_wraps DeleteImage_wraps PruneDanglingImages_labels Exec_labels)

theorem returned_errors_are_labelled_witness:
  "wrapped ''app:latest'' (errors_New ''[ERR:] [DOCKER] => FAILED TO BUILD IMAGE app:latest => connection refused'')
   \<and> wrapped ''web'' (errors_New ''[ERR:] [DOCKER] => FAILED TO CREATE CONTAINER web => connection refused'')
   \<and> wrapped ''c0ffee'' (errors_New ''[ERR:] [DOCKER] => FAILED TO START CONTAINER WITH ID: c0ffee => connection refused'')
   \<and> wrapped ''c0ffee'' (errors_New ''[ERR:] [DOCKER] => FAILED TO STOP CONTAINER WITH ID: c0ffee => connection refused'')
   \<and> wrapped ''c0ffee'' (errors_New ''[ERR:] [DOCKER] => FAILED TO PURGE CONTAINER WITH ID: c0ffee => connection refused'')
   \<and> wrapped ''app:latest'' (errors_New ''[ERR:] [DOCKER] => FAILED TO DELETE IMAGE: app:latest | => connection refused'')
   \<and> labelled (errors_New ''[ERR:] [DOCKER] => FAILED TO PRUNE DANGLING IMAGES  | => connection refused'')
   \<and> labelled (errors_New ''[ERR:] [DOCKER] => FAILED TO CREATE EXEC ISNTANCE => connection refused'')"
proof -
  let ?build = "engine_ok\<lparr>ImageBuild := (\<lambda>h ctx opts. (\<lparr>Body = \<lparr>records = [], body_end = io_EOF\<rparr>, OSType = []\<rparr>, Some refused))\<rparr>"
  let ?create = "engine_ok\<lparr>ContainerCreate := (\<lambda>h cfg. (\<lparr>CreateResponse.ID = [], Warnings = []\<rparr>, Some refused))\<rparr>"
  let ?start = "engine_ok\<lparr>ContainerStart := (\<lambda>h cid. Some refused)\<rparr>"
  let ?stop = "engine_ok\<lparr>ContainerStop := (\<lambda>h cid opts. Some refused)\<rparr>"
  let ?remove = "engine_ok\<lparr>ContainerRemove := (\<lambda>h cid opts. Some refused)\<rparr>"
  let ?rmi = "engine_ok\<lparr>ImageRemove := (\<lambda>h iid opts. ([], Some refused))\<rparr>"
  let ?prune = "engine_ok\<lparr>ImagesPrune := (\<lambda>h fs. (\<lparr>ImagesDeleted = [], SpaceReclaimed = 0\<rparr>, Some refused))\<rparr>"
  let ?exec = "engine_ok\<lparr>ContainerExecCreate := (\<lambda>h cid opts. (\<lparr>IDResponse.ID = []\<rparr>, Some refused))\<rparr>"
  let ?cfg = "\<lparr>Name = ''web'', Config = Some (container_Config ''nginx''), HostConfig = None,
               NetworkingConfig = None, Platform = None\<rparr>"
  let ?cont = "\<lparr>CreateResponse.ID = ''c0ffee'', Warnings = []\<rparr>"
  have b: "BuildImage Tar_ok ?build ''ctx'' ''app:latest'' [] =
             Some (Some (errors_New ''[ERR:] [DOCKER] => FAILED TO BUILD IMAGE app:latest => connection refused''),
                   [Call_ImageBuild ''tar of ctx'' (buildOptions ''app:latest'')])"
    by (simp add: BuildImage_def Tar_ok_def refused_def)
  have c: "fst (CreateContainer ?create (Some ?cfg) []) =
             Returns (\<lparr>CreateResponse.ID = [], Warnings = []\<rparr>,
               Some (errors_New ''[ERR:] [DOCKER] => FAILED TO CREATE CONTAINER web => connection refused''))"
    by (simp add: CreateContainer_def refused_def)
  have s: "fst (StartContainer ?start ?cont []) =
             Some (errors_New ''[ERR:] [DOCKER] => FAILED TO START CONTAINER WITH ID: c0ffee => connection refused'')"
    by (simp add: StartContainer_def refused_def)
  have t: "fst (StopContainer ?stop ''c0ffee'' []) =
             Some (errors_New ''[ERR:] [DOCKER] => FAILED TO STOP CONTAINER WITH ID: c0ffee => connection refused'')"
    by (simp add: StopContainer_def refused_def)
  have p: "fst (PurgeContainer ?remove ''c0ffee'' []) =
             Some (errors_New ''[ERR:] [DOCKER] => FAILED TO PURGE CONTAINER WITH ID: c0ffee => connection refused'')"
    by (simp add: PurgeContainer_def refused_def)
  have d: "fst (DeleteImage ?rmi ''app:latest'' []) =
             (True, Some (errors_New ''[ERR:] [DOCKER] => FAILED TO DELETE IMAGE: app:latest | => connection refused''))"
    by (simp add: DeleteImage_def engine_ok_def refused_def)
  have r: "fst (PruneDanglingImages ?prune []) =
             (\<lparr>ImagesDeleted = [], SpaceReclaimed = 0\<rparr>,
              Some (errors_New ''[ERR:] [DOCKER] => FAILED TO PRUNE DANGLING IMAGES  | => connection refused''))"
    by (simp add: PruneDanglingImages_def refused_def)
  have x: "fst (Exec ?exec ''web'' [''ls''] []) =
             ([], Some (errors_New ''[ERR:] [DOCKER] => FAILED TO CREATE EXEC ISNTANCE => connection refused''))"
    by (simp add: Exec_def refused_def)
  note all = returned_errors_are_labelled
  show ?thesis
    using all [THEN conjunct1, rule_format, OF b]
      all [THEN conjunct2, THEN conjunct1, rule_format, OF c]
      all [THEN conjunct2, THEN conjunct2, THEN conjunct1, rule_format, OF s]
      all [THEN conjunct2, THEN conjunct2, THEN conjunct2, THEN conjunct1, rule_format, OF t]
      all [THEN conjunct2, THEN conjunct2, THEN conjunct2, THEN conjunct2, THEN conjunct1, rule_format, OF p]
      all [THEN conjunct2, THEN conjunct2, THEN conjunct2, THEN conjunct2, THEN conjunct2, THEN conjunct1,
           rule_format, OF d]
      all [THEN conjunct2, THEN conjunct2, THEN conjunct2, THEN conjunct2, THEN conjunct2, THEN conjunct2,
           THEN conjunct1, rule_format, OF r]
      all [THEN conjunct2, THEN conjunct2, THEN conjunct2, THEN conjunct2, THEN conjunct2, THEN conjunct2,
           THEN conjunct2, rule_format, OF x]
    by simp
qed

subsection \<open>C6: a failed health probe\<close>

text \<open>
  C6: if the inspection fails, \<open>GetContainerHealthStatus\<close> returns the status
  \<open>unhealthy\<close> together with the inspection error; and when the inspection succeeds no
  result carries an error, so the error tells a failed probe from an observed status.
\<close>

theorem GetContainerHealthStatus_inspect_fails:
  "(ContainerInspect DockerClient h containerID = (containerJSON, Some e) \<longrightarrow>
      GetContainerHealthStatus DockerClient containerID h =
        (Returns (''unhealthy'', Some e), h @ [Call_ContainerInspect containerID]))
   \<and> (ContainerInspect DockerClient h containerID = (containerJSON, None) \<longrightarrow>
        fst (GetContainerHealthStatus DockerClient containerID h) \<noteq> Returns (status, Some e))"
  by (simp add: GetContainerHealthStatus_def Let_def split: option.splits)

theorem GetContainerHealthStatus_inspect_fails_witness:
  "GetContainerHealthStatus (engine_ok\<lparr>ContainerInspect := (\<lambda>h cid. (\<lparr>ContainerJSONBase = None\<rparr>, Some refused))\<rparr>) ''web'' [] =
     (Returns (''unhealthy'', Some refused), [Call_ContainerInspect ''web''])
   \<and> fst (GetContainerHealthStatus engine_ok ''web'' []) \<noteq> Returns (''unhealthy'', Some refused)"
  using
    GetContainerHealthStatus_inspect_fails [of "engine_ok\<lparr>ContainerInspect := (\<lambda>h cid. (\<lparr>ContainerJSONBase = None\<rparr>, Some refused))\<rparr>"
      "[]" "''web''" "\<lparr>ContainerJSONBase = None\<rparr>" refused "''unhealthy''"]
    GetContainerHealthStatus_inspect_fails [of engine_ok "[]" "''web''"
      "fst (ContainerInspect engine_ok [] ''web'')" refused "''unhealthy''"]
  by (simp add: engine_ok_def)

subsection \<open>C7: demultiplexing is independent of fragmentation\<close>

text \<open>
  C7: for every list of frames and every way \<open>cs\<close> of cutting their wire encoding into
  reads, the copy ends without error with the stdout buffer equal to the concatenated
  payloads of the stdout frames and the stderr buffer equal to those of the stderr frames.
  A payload is shorter than \<open>2^32\<close> bytes, the most a 4-byte length can say.
\<close>

theorem StdCopy_fragmented:
  assumes "\<forall>f \<in> set fs. length (snd f) < 4294967296"
    and "concat cs = wire fs"
  shows "StdCopy \<lparr>chunks = cs, reader_end = io_EOF\<rparr> =
           ((payloads_of Stdout fs, payloads_of Stderr fs), None)"
proof -
  have "emit_frames (concat (chunks \<lparr>chunks = cs, reader_end = io_EOF\<rparr>)) [] [] =
          Inr ([], payloads_of Stdout fs, payloads_of Stderr fs)"
    using emit_frames_all [OF assms(1)] assms(2) by simp
  then show ?thesis
    by (rule StdCopy_one_shot) simp
qed

theorem StdCopy_fragmented_witness:
  "concat (chunks exec_stream) = wire [(Stdout, ''hello ''), (Stderr, ''warning''), (Stdout, ''world'')]
   \<and> length (chunks exec_stream) = 3
   \<and> StdCopy exec_stream = ((''hello world'', ''warning''), None)"
proof -
  have small: "\<forall>f \<in> set [(Stdout, ''hello ''), (Stderr, ''warning''), (Stdout, ''world'')].
                 length (snd f) < 4294967296"
    by simp
  have "StdCopy \<lparr>chunks = chunks exec_stream, reader_end = io_EOF\<rparr> =
          ((payloads_of Stdout [(Stdout, ''hello ''), (Stderr, ''warning''), (Stdout, ''world'')],
            payloads_of Stderr [(Stdout, ''hello ''), (Stderr, ''warning''), (Stdout, ''world'')]), None)"
    using small exec_stream_wire by (rule StdCopy_fragmented)
  moreover have "\<lparr>chunks = chunks exec_stream, reader_end = io_EOF\<rparr> = exec_stream"
    by (simp add: exec_stream_def)
  ultimately show ?thesis
    using exec_stream_wire by (simp add: payloads_of_def exec_stream_def)
qed

subsection \<open>C8: PurgeContainer\<close>

text \<open>
  C8: \<open>PurgeContainer\<close> makes one call, the removal of the container with force and
  volume removal enabled and link removal disabled, whatever the history (whether or not the
  container was stopped before); and it returns nil whenever the engine carries out that
  forced removal.
\<close>

theorem PurgeContainer_forced_removal:
  "snd (PurgeContainer DockerClient containerID h) =
     h @ [Call_ContainerRemove containerID
            \<lparr>RemoveVolumes = True, RemoveLinks = False, RemoveOptions.Force = True\<rparr>]
   \<and> (ContainerRemove DockerClient h containerID
          \<lparr>RemoveVolumes = True, RemoveLinks = False, RemoveOptions.Force = True\<rparr> = None \<longrightarrow>
        fst (PurgeContainer DockerClient containerID h) = None)"
  by (simp add: PurgeContainer_def Let_def split: option.splits)

theorem PurgeContainer_forced_removal_witness:
  "\<not> list_ex (is_stop_of ''web'') [Call_ContainerStart ''web'']
   \<and> ContainerRemove engine_guarding [Call_ContainerStart ''web''] ''web''
        \<lparr>RemoveVolumes = True, RemoveLinks = False, RemoveOptions.Force = False\<rparr> \<noteq> None
   \<and> PurgeContainer engine_guarding ''web'' [Call_ContainerStart ''web''] =
       (None, [Call_ContainerStart ''web'',
               Call_ContainerRemove ''web'' \<lparr>RemoveVolumes = True, RemoveLinks = False, RemoveOptions.Force = True\<rparr>])"
  using PurgeContainer_forced_removal [of engine_guarding "''web''" "[Call_ContainerStart ''web'']"]
  by (simp add: engine_guarding_def engine_ok_def prod_eq_iff)

subsection \<open>C9: termination of the log-drain loop\<close>

text \<open>
  Where the stream ends, that is after its last input every read returns \<open>io.EOF\<close>,
  \<open>BuildImage\<close> returns, whatever the inputs were: an input that fails to decode is
  consumed with the decoder that read it, and the loop goes on with the inputs after it.
\<close>

lemma BuildImage_returns_when_stream_ends:
  assumes "\<And>buildCtx resp.
             Tar path = (buildCtx, None) \<Longrightarrow>
             ImageBuild DockerClient h buildCtx (buildOptions imageName) = (resp, None) \<Longrightarrow>
             body_end (Body resp) = io_EOF"
  shows "BuildImage Tar DockerClient path imageName h \<noteq> None
         \<and> BuildImage_loop (body\<lparr>records := Garbage t # rest\<rparr>) h1 =
             BuildImage_loop (body\<lparr>records := rest\<rparr>) h1"
proof
  obtain buildCtx buildCtxErr where tar: "Tar path = (buildCtx, buildCtxErr)"
    by (cases "Tar path")
  obtain resp imgErr where
    build: "ImageBuild DockerClient h buildCtx (buildOptions imageName) = (resp, imgErr)"
    by (cases "ImageBuild DockerClient h buildCtx (buildOptions imageName)")
  show "BuildImage Tar DockerClient path imageName h \<noteq> None"
  proof (cases buildCtxErr)
    case (Some e)
    with tar show ?thesis by (simp add: BuildImage_def)
  next
    case no_tar_err: None
    show ?thesis
    proof (cases imgErr)
      case (Some e)
      with tar build no_tar_err show ?thesis by (simp add: BuildImage_def)
    next
      case None
      with tar build no_tar_err assms [of buildCtx resp] show ?thesis
        by (simp add: BuildImage_submitted)
    qed
  qed
  show "BuildImage_loop (body\<lparr>records := Garbage t # rest\<rparr>) h1 =
          BuildImage_loop (body\<lparr>records := rest\<rparr>) h1"
    using loop_Cons [of "body\<lparr>records := Garbage t # rest\<rparr>" "Garbage t" rest h1] by simp
qed

lemma BuildImage_returns_when_stream_ends_example:
  "Tar_ok ''ctx'' = (''tar of ctx'', None)
   \<and> ImageBuild (engine_building garbled_build_log) [] ''tar of ctx'' (buildOptions ''app:latest'')
       = (\<lparr>Body = garbled_build_log, OSType = ''linux''\<rparr>, None)
   \<and> body_end garbled_build_log = io_EOF
   \<and> BuildImage Tar_ok (engine_building garbled_build_log) ''ctx'' ''app:latest'' [] \<noteq> None"
proof -
  have t: "Tar_ok ''ctx'' = (''tar of ctx'', None)"
    by (simp add: Tar_ok_def)
  have b: "ImageBuild (engine_building garbled_build_log) [] ''tar of ctx'' (buildOptions ''app:latest'')
             = (\<lparr>Body = garbled_build_log, OSType = ''linux''\<rparr>, None)"
    by (simp add: engine_building_def)
  have e: "body_end garbled_build_log = io_EOF"
    by (simp add: garbled_build_log_def)
  have "BuildImage Tar_ok (engine_building garbled_build_log) ''ctx'' ''app:latest'' [] \<noteq> None"
  proof (rule BuildImage_returns_when_stream_ends [THEN conjunct1])
    fix buildCtx resp
    assume "Tar_ok ''ctx'' = (buildCtx, None)"
      and "ImageBuild (engine_building garbled_build_log) [] buildCtx (buildOptions ''app:latest'')
             = (resp, None)"
    then show "body_end (Body resp) = io_EOF"
      using e by (auto simp: Tar_ok_def engine_building_def)
  qed
  with t b e show ?thesis by simp
qed

text \<open>
  C9: the claim is that the loop terminates for every finite response stream, and that
  \<open>BuildImage\<close> returns also when a decode yields an error other than \<open>io.EOF\<close>. On
  \<open>broken_build_log\<close> it does not: the stream is finite, the decode of its cut record fails,
  and then every new decoder gets the same read error from the body, which is not
  \<open>io.EOF\<close>, so the loop never reaches its exit and the body is never closed.
\<close>

theorem BuildImage_never_returns_on_broken_stream:
  "BuildImage Tar_ok (engine_building broken_build_log) ''ctx'' ''app:latest'' [] = None"
proof -
  have "Tar_ok ''ctx'' = (''tar of ctx'', None)"
    by (simp add: Tar_ok_def)
  moreover have "ImageBuild (engine_building broken_build_log) [] ''tar of ctx'' (buildOptions ''app:latest'')
                   = (\<lparr>Body = broken_build_log, OSType = ''linux''\<rparr>, None)"
    by (simp add: engine_building_def)
  ultimately show ?thesis
    by (simp add: BuildImage_submitted broken_build_log_def)
qed

subsection \<open>C10: a container without a healthcheck\<close>

text \<open>
  C10: the claim is that \<open>GetContainerHealthStatus\<close> returns a value whenever the
  inspection succeeds, also for a container with no healthcheck. On such a container the
  \<open>Health\<close> pointer is nil and the code reads \<open>Health.Status\<close> through it: the call panics.
\<close>

theorem GetContainerHealthStatus_no_healthcheck_panics:
  "GetContainerHealthStatus engine_no_healthcheck ''web'' [] =
     (Panics ''nil pointer dereference'', [Call_ContainerInspect ''web''])"
  by (simp add: GetContainerHealthStatus_def engine_no_healthcheck_def engine_ok_def)

end
